theory Spec2Isabelle
  imports Complex_Main "HOL-Library.Char_ord" "HOL-Library.List_Lexorder"
    "HOL-Library.Product_Lexorder"
begin

section \<open>Values, frames and errors\<close>

text \<open>
  The values that travel through \<^verbatim>\<open>DA.py\<close>: Python ints, floats (with NaN, which
  \<^verbatim>\<open>np.sqrt\<close> produces for a negative argument) and strings. Floats are modelled
  as reals: rounding is not part of the model.
\<close>

datatype cell = PyInt int | PyFloat real | PyNaN | PyStr string

text \<open>
  A pandas DataFrame, and the dict of lists it is built from at line 217, as the ordered
  list of its columns, each a name and the cells of its rows.
\<close>

type_synonym frame = "(string \<times> cell list) list"

text \<open>The exceptions the script can meet; each carries the text that \<^verbatim>\<open>str(e)\<close> gives.\<close>

datatype py_error =
    FileNotFoundError string
  | KeyError string
  | IndexError string
  | TypeError string
  | AttributeError string
  | OtherError string

fun str_of :: "py_error \<Rightarrow> string" where
  "str_of (FileNotFoundError m) = m"
| "str_of (KeyError m) = m"
| "str_of (IndexError m) = m"
| "str_of (TypeError m) = m"
| "str_of (AttributeError m) = m"
| "str_of (OtherError m) = m"

text \<open>
  What one run of the script does that can be seen from outside: the Streamlit calls it
  makes and the calls into the two loaded artifacts. The HTML and CSS around the values
  is presentation; an event keeps the values that are interpolated into it.
  \<^item> \<open>Title\<close>: line 211;
  \<^item> \<open>Style None\<close> is \<^verbatim>\<open>set_default_style\<close>, \<open>Style (Some b)\<close> is
    \<^verbatim>\<open>set_background_style(b)\<close>;
  \<^item> \<open>St_warning\<close>, \<open>St_error\<close>: \<^verbatim>\<open>st.warning\<close>, \<^verbatim>\<open>st.error\<close>;
  \<^item> \<open>Called_transform d\<close>: \<^verbatim>\<open>self.preprocessor.transform(d)\<close> is invoked;
  \<^item> \<open>Called_predict v\<close>: \<^verbatim>\<open>self.model.predict(v)\<close> is invoked;
  \<^item> \<open>Result_heading\<close>, \<open>Result_text color disorder\<close>: lines 176 to 179;
  \<^item> \<open>Recommendations_heading\<close>, \<open>Recommendation rec\<close>: lines 206 to 208.
\<close>

datatype 'f event =
    Title
  | Style "string option"
  | St_warning string
  | St_error string
  | Called_transform frame
  | Called_predict 'f
  | Result_heading
  | Result_text string string
  | Recommendations_heading
  | Recommendation string

section \<open>The result mapper\<close>

text \<open>
  Python compares dict keys with \<^verbatim>\<open>==\<close>: the int 1 and the float 1.0 are the same
  key, NaN equals nothing, a string never equals a number.
\<close>

fun py_eq :: "cell \<Rightarrow> cell \<Rightarrow> bool" where
  "py_eq (PyInt i) (PyInt j) = (i = j)"
| "py_eq (PyInt i) (PyFloat r) = (of_int i = r)"
| "py_eq (PyFloat r) (PyInt i) = (r = of_int i)"
| "py_eq (PyFloat r) (PyFloat s) = (r = s)"
| "py_eq (PyStr a) (PyStr b) = (a = b)"
| "py_eq _ _ = False"

text \<open>\<^verbatim>\<open>d.get(k, default)\<close> on a dict with cell keys.\<close>

fun dict_get :: "(cell \<times> 'v) list \<Rightarrow> cell \<Rightarrow> 'v \<Rightarrow> 'v" where
  "dict_get [] k d = d"
| "dict_get ((k', v) # kvs) k d = (if py_eq k' k then v else dict_get kvs k d)"

text \<open>Lines 36 to 40.\<close>

definition DISORDER_MAPPING :: "(cell \<times> string \<times> string) list" where
  "DISORDER_MAPPING =
     [(PyFloat 0, (''Insomnia'', ''red'')),
      (PyFloat 1, (''No Disorder'', ''green'')),
      (PyFloat 2, (''Sleep Apnea'', ''orange''))]"

text \<open>Lines 33 to 35.\<close>

definition OCCUPATIONS :: "string list" where
  "OCCUPATIONS = [''Others'', ''Doctor'', ''Teacher'', ''Nurse'', ''Engineer'',
                  ''Accountant'', ''Lawyer'', ''Salesperson'']"

definition BMI_CATEGORIES :: "string list" where
  "BMI_CATEGORIES = [''Normal Weight'', ''Overweight'', ''Obese'']"

text \<open>The dict literal of lines 184 to 203, in its order.\<close>

definition recommendations :: "(string \<times> string list) list" where
  "recommendations =
     [(''Insomnia'',
        [''Maintain a consistent sleep schedule'',
         ''Create a relaxing bedtime routine'',
         ''Avoid screens before bedtime'',
         ''Consider consulting a sleep specialist'']),
      (''Sleep Apnea'',
        [''Sleep on your side instead of your back'',
         ''Maintain a healthy weight'',
         ''Consider using a CPAP machine'',
         ''Consult a healthcare provider for proper diagnosis'']),
      (''No Disorder'',
        [''Continue maintaining good sleep habits'',
         ''Stay physically active'',
         ''Monitor sleep quality regularly'',
         ''Practice stress management''])]"

text \<open>
  Lines 205 to 208: a disorder that is a key gets the heading and one line for each of
  its entries, in order; one that is not a key gets nothing.
\<close>

definition display_recommendations :: "string \<Rightarrow> 'f event list" where
  "display_recommendations disorder =
     (case map_of recommendations disorder of
        None \<Rightarrow> []
      | Some recs \<Rightarrow> Recommendations_heading # map Recommendation recs)"

text \<open>The lookup of line 175, for the label \<^verbatim>\<open>prediction[0]\<close>.\<close>

definition disorder_of :: "cell \<Rightarrow> string \<times> string" where
  "disorder_of label = dict_get DISORDER_MAPPING label (''Unknown'', ''gray'')"

text \<open>
  Lines 173 to 181. \<^verbatim>\<open>prediction[0]\<close> on an empty array raises IndexError, before
  anything is shown.
\<close>

fun display_prediction :: "cell list option \<Rightarrow> py_error + 'f event list" where
  "display_prediction None = Inr []"
| "display_prediction (Some []) =
     Inl (IndexError ''index 0 is out of bounds for axis 0 with size 0'')"
| "display_prediction (Some (label # rest)) =
     (case disorder_of label of (disorder, color) \<Rightarrow>
        Inr ([Result_heading, Result_text color disorder] @ display_recommendations disorder))"

section \<open>numpy and pandas, as far as the script uses them\<close>

definition quoted :: "string \<Rightarrow> string" where
  "quoted s = [CHR 0x27] @ s @ [CHR 0x27]"

text \<open>\<^verbatim>\<open>data[name]\<close>: the column, or KeyError.\<close>

definition getitem :: "frame \<Rightarrow> string \<Rightarrow> py_error + cell list" where
  "getitem data name =
     (case map_of data name of
        None \<Rightarrow> Inl (KeyError (quoted name))
      | Some col \<Rightarrow> Inr col)"

text \<open>
  \<^verbatim>\<open>data[name] = col\<close>: an existing column is replaced where it stands, a new one is
  appended as the last column.
\<close>

fun setitem :: "frame \<Rightarrow> string \<Rightarrow> cell list \<Rightarrow> frame" where
  "setitem [] name col = [(name, col)]"
| "setitem ((m, c) # rest) name col =
     (if m = name then (name, col) # rest else (m, c) # setitem rest name col)"

text \<open>\<^verbatim>\<open>data.drop(columns=names)\<close>: KeyError when a name is not a column.\<close>

fun join :: "string list \<Rightarrow> string" where
  "join [] = []"
| "join [x] = x"
| "join (x # y # ys) = x @ '', '' @ join (y # ys)"

definition drop_columns :: "frame \<Rightarrow> string list \<Rightarrow> py_error + frame" where
  "drop_columns data names =
     (case filter (\<lambda>n. n \<notin> set (map fst data)) names of
        [] \<Rightarrow> Inr (filter (\<lambda>(m, c). m \<notin> set names) data)
      | n # ns \<Rightarrow>
          Inl (KeyError ([CHR 0x22] @ ''['' @ join (map quoted (n # ns)) @ ''] not found in axis''
                 @ [CHR 0x22])))"

text \<open>
  \<^verbatim>\<open>np.sqrt\<close> on one value: the root of a number that is not negative, NaN for a
  negative number (numpy warns and goes on), nothing for a string.
\<close>

fun sqrt_cell :: "cell \<Rightarrow> cell option" where
  "sqrt_cell (PyInt i) = Some (if i < 0 then PyNaN else PyFloat (sqrt (of_int i)))"
| "sqrt_cell (PyFloat r) = Some (if r < 0 then PyNaN else PyFloat (sqrt r))"
| "sqrt_cell PyNaN = Some PyNaN"
| "sqrt_cell (PyStr s) = None"

text \<open>\<^verbatim>\<open>np.sqrt\<close> on a column: elementwise, TypeError on a column with a string.\<close>

definition np_sqrt :: "cell list \<Rightarrow> py_error + cell list" where
  "np_sqrt col =
     (case those (map sqrt_cell col) of
        None \<Rightarrow> Inl (TypeError ''loop of ufunc does not support argument 0 of type str which has no callable sqrt method'')
      | Some roots \<Rightarrow> Inr roots)"

section \<open>The label encoder\<close>

text \<open>
  scikit-learn's \<^verbatim>\<open>LabelEncoder\<close>: its state is \<^verbatim>\<open>classes_\<close>, unset before the
  first fit. \<^verbatim>\<open>fit_transform(y)\<close> sets \<^verbatim>\<open>classes_\<close> to the sorted distinct values
  of \<^verbatim>\<open>y\<close> and returns for each value its position among them. A column is all
  strings, all ints, or numbers (NaN sorted last); a mixed one raises TypeError.
\<close>

record LabelEncoder =
  classes_ :: "cell list option"

fun str_key :: "cell \<Rightarrow> string option" where
  "str_key (PyStr s) = Some s"
| "str_key _ = None"

fun int_key :: "cell \<Rightarrow> int option" where
  "int_key (PyInt i) = Some i"
| "int_key _ = None"

fun num_key :: "cell \<Rightarrow> (bool \<times> real) option" where
  "num_key (PyInt i) = Some (False, of_int i)"
| "num_key (PyFloat r) = Some (False, r)"
| "num_key PyNaN = Some (True, 0)"
| "num_key (PyStr s) = None"

fun num_cell :: "bool \<times> real \<Rightarrow> cell" where
  "num_cell (nan, r) = (if nan then PyNaN else PyFloat r)"

fun index_of :: "'a list \<Rightarrow> 'a \<Rightarrow> nat" where
  "index_of [] x = 0"
| "index_of (y # ys) x = (if x = y then 0 else Suc (index_of ys x))"

definition encode :: "'a::linorder list \<Rightarrow> 'a list \<times> cell list" where
  "encode ks =
     (let classes = sort (remdups ks)
      in (classes, map (\<lambda>k. PyInt (int (index_of classes k))) ks))"

definition fit_transform :: "LabelEncoder \<Rightarrow> cell list \<Rightarrow> (py_error + cell list) \<times> LabelEncoder" where
  "fit_transform le y =
     (case those (map str_key y) of
        Some ks \<Rightarrow>
          (case encode ks of (classes, codes) \<Rightarrow>
             (Inr codes, le\<lparr>classes_ := Some (map PyStr classes)\<rparr>))
      | None \<Rightarrow>
     (case those (map int_key y) of
        Some ks \<Rightarrow>
          (case encode ks of (classes, codes) \<Rightarrow>
             (Inr codes, le\<lparr>classes_ := Some (map PyInt classes)\<rparr>))
      | None \<Rightarrow>
     (case those (map num_key y) of
        Some ks \<Rightarrow>
          (case encode ks of (classes, codes) \<Rightarrow>
             (Inr codes, le\<lparr>classes_ := Some (map num_cell classes)\<rparr>))
      | None \<Rightarrow>
          (Inl (TypeError ''Encoders require their input argument must be uniformly strings or numbers.''),
           le))))"

text \<open>
  \<^verbatim>\<open>X.apply(f)\<close> for \<^verbatim>\<open>f = self.encoder.fit_transform\<close>: the columns in order, each
  through the same encoder object, whose state each call overwrites; the first exception
  ends it.
\<close>

fun apply_fit_transform :: "LabelEncoder \<Rightarrow> frame \<Rightarrow> (py_error + frame) \<times> LabelEncoder" where
  "apply_fit_transform le [] = (Inr [], le)"
| "apply_fit_transform le ((name, col) # rest) =
     (case fit_transform le col of
        (Inl e, le') \<Rightarrow> (Inl e, le')
      | (Inr codes, le') \<Rightarrow>
          (case apply_fit_transform le' rest of
             (Inl e, le'') \<Rightarrow> (Inl e, le'')
           | (Inr out, le'') \<Rightarrow> (Inr ((name, codes) # out), le'')))"

text \<open>
  Lines 10 to 16. The attribute \<^verbatim>\<open>encoder\<close> exists once \<^verbatim>\<open>fit\<close> has run;
  \<^verbatim>\<open>transform\<close> before that raises AttributeError.
\<close>

record LabelEncoderTransformer =
  encoder :: "LabelEncoder option"

definition LabelEncoderTransformer_fit :: "LabelEncoderTransformer \<Rightarrow> LabelEncoderTransformer" where
  "LabelEncoderTransformer_fit self = self\<lparr>encoder := Some \<lparr>classes_ = None\<rparr>\<rparr>"

definition LabelEncoderTransformer_transform ::
  "LabelEncoderTransformer \<Rightarrow> frame \<Rightarrow> (py_error + frame) \<times> LabelEncoderTransformer" where
  "LabelEncoderTransformer_transform self X =
     (case encoder self of
        None \<Rightarrow>
          (Inl (AttributeError (quoted ''LabelEncoderTransformer'' @ '' object has no attribute '' @ quoted ''encoder'')),
           self)
      | Some le \<Rightarrow>
          (case apply_fit_transform le X of (r, le') \<Rightarrow> (r, self\<lparr>encoder := Some le'\<rparr>)))"

section \<open>The transform stage\<close>

text \<open>Lines 114 and 115: the derived column is added, then the hours column is dropped.\<close>

definition sqrt_and_drop :: "frame \<Rightarrow> py_error + frame" where
  "sqrt_and_drop data =
     (case getitem data ''Sleep Duration'' of
        Inl e \<Rightarrow> Inl e
      | Inr hours \<Rightarrow>
          (case np_sqrt hours of
             Inl e \<Rightarrow> Inl e
           | Inr roots \<Rightarrow>
               drop_columns (setitem data ''Sleep Duration Sqrt'' roots) [''Sleep Duration'']))"

text \<open>
  Lines 112 to 119. The loaded preprocessor is a parameter: its \<^verbatim>\<open>transform\<close> method,
  which takes the object's state and the frame and gives the feature matrix or an
  exception, and the state after the call. Every exception is caught, shown, and turned
  into \<^verbatim>\<open>None\<close>.
\<close>

definition preprocess_input ::
  "('s \<Rightarrow> frame \<Rightarrow> (py_error + 'f) \<times> 's) \<Rightarrow> 's \<Rightarrow> frame \<Rightarrow> ('f option \<times> 'f event list) \<times> 's" where
  "preprocess_input transform s data =
     (case sqrt_and_drop data of
        Inl e \<Rightarrow> ((None, [St_error (''Error in preprocessing: '' @ str_of e)]), s)
      | Inr d \<Rightarrow>
          (case transform s d of
             (Inl e, s') \<Rightarrow>
               ((None, [Called_transform d, St_error (''Error in preprocessing: '' @ str_of e)]), s')
           | (Inr v, s') \<Rightarrow> ((Some v, [Called_transform d]), s')))"

section \<open>The form\<close>

text \<open>
  Streamlit is outside the script, so its widgets are parameters: what each call returns
  in a script run, given the browser session \<open>'u\<close> (what the user has entered) and the
  arguments the script passes.
  \<^item> \<open>selectbox u label options\<close>;
  \<^item> \<open>number_input_int u label min_value max_value value\<close>, with int arguments (an
    absent \<^verbatim>\<open>max_value\<close> is \<open>None\<close>), and \<open>number_input_float\<close> with float arguments;
  \<^item> \<open>slider u label min_value max_value value\<close>;
  \<^item> \<open>form_submit_button u label\<close>.
\<close>

record 'u streamlit =
  selectbox :: "'u \<Rightarrow> string \<Rightarrow> string list \<Rightarrow> string"
  number_input_int :: "'u \<Rightarrow> string \<Rightarrow> int \<Rightarrow> int option \<Rightarrow> int \<Rightarrow> int"
  number_input_float :: "'u \<Rightarrow> string \<Rightarrow> real \<Rightarrow> real \<Rightarrow> real \<Rightarrow> real"
  slider :: "'u \<Rightarrow> string \<Rightarrow> int \<Rightarrow> int \<Rightarrow> int \<Rightarrow> int"
  form_submit_button :: "'u \<Rightarrow> string \<Rightarrow> bool"

text \<open>Lines 121 to 171: the button's state and the dict of one-element lists.\<close>

definition get_user_input :: "'u streamlit \<Rightarrow> 'u \<Rightarrow> bool \<times> frame" where
  "get_user_input st u =
     (let gender = selectbox st u ''Gender'' [''Male'', ''Female''];
          age = number_input_int st u ''Age'' 18 (Some 100) 30;
          sleep_duration = number_input_float st u ''Sleep Duration (hours)'' 0 24 (15 / 2);
          occupation = selectbox st u ''Occupation'' OCCUPATIONS;
          quality_of_sleep = slider st u ''Quality of Sleep'' 1 10 7;
          physical_activity = number_input_int st u ''Physical Activity (minutes/day)'' 0 None 30;
          stress_level = slider st u ''Stress Level'' 1 10 5;
          bmi_category = selectbox st u ''BMI Category'' BMI_CATEGORIES;
          systolic = number_input_int st u ''Systolic Blood Pressure'' 70 (Some 200) 120;
          diastolic = number_input_int st u ''Diastolic Blood Pressure'' 40 (Some 130) 80;
          heart_rate = number_input_int st u ''Heart Rate (bpm)'' 40 (Some 200) 70;
          daily_steps = number_input_int st u ''Daily Steps'' 0 (Some 50000) 10000;
          submit_button = form_submit_button st u ''Predict Sleep Disorder''
      in (submit_button,
          [(''Gender'', [PyStr gender]),
           (''Age'', [PyInt age]),
           (''Sleep Duration'', [PyFloat sleep_duration]),
           (''Occupation'', [PyStr occupation]),
           (''Quality of Sleep'', [PyInt quality_of_sleep]),
           (''Physical Activity Level'', [PyInt physical_activity]),
           (''Stress Level'', [PyInt stress_level]),
           (''BMI Category'', [PyStr bmi_category]),
           (''Systolic'', [PyInt systolic]),
           (''Diastolic'', [PyInt diastolic]),
           (''Heart Rate'', [PyInt heart_rate]),
           (''Daily Steps'', [PyInt daily_steps])]))"

text \<open>
  What Streamlit documents for its widgets: a number input and a slider return a value
  between \<^verbatim>\<open>min_value\<close> and \<^verbatim>\<open>max_value\<close> (the minimum and maximum permitted
  values), a select box returns one of its options.
\<close>

definition in_bounds :: "'a::linorder \<Rightarrow> 'a option \<Rightarrow> 'a \<Rightarrow> bool" where
  "in_bounds lo hi x = (lo \<le> x \<and> (case hi of None \<Rightarrow> True | Some h \<Rightarrow> x \<le> h))"

definition widget_contract :: "'u streamlit \<Rightarrow> bool" where
  "widget_contract st =
     ((\<forall>u label lo hi v. in_bounds lo hi v \<longrightarrow> in_bounds lo hi (number_input_int st u label lo hi v)) \<and>
      (\<forall>u label lo hi v. in_bounds lo (Some hi) v \<longrightarrow>
          in_bounds lo (Some hi) (number_input_float st u label lo hi v)) \<and>
      (\<forall>u label lo hi v. in_bounds lo (Some hi) v \<longrightarrow> in_bounds lo (Some hi) (slider st u label lo hi v)) \<and>
      (\<forall>u label options. options \<noteq> [] \<longrightarrow> selectbox st u label options \<in> set options))"

text \<open>
  One implementation of the widgets, for running the script on concrete entries: the
  session is what the user typed under each label; an entry within the bounds is
  returned, any other entry is not taken and the widget keeps the value the script gave
  it. A select box starts at its first option.
\<close>

definition entry_selectbox :: "(string \<times> cell) list \<Rightarrow> string \<Rightarrow> string list \<Rightarrow> string" where
  "entry_selectbox u label options =
     (case options of
        [] \<Rightarrow> []
      | first # others \<Rightarrow>
          (case map_of u label of
             Some (PyStr s) \<Rightarrow> if s \<in> set options then s else first
           | _ \<Rightarrow> first))"

definition entry_number_int :: "(string \<times> cell) list \<Rightarrow> string \<Rightarrow> int \<Rightarrow> int option \<Rightarrow> int \<Rightarrow> int" where
  "entry_number_int u label lo hi v =
     (case map_of u label of
        Some (PyInt e) \<Rightarrow> if in_bounds lo hi e then e else v
      | _ \<Rightarrow> v)"

definition entry_number_float :: "(string \<times> cell) list \<Rightarrow> string \<Rightarrow> real \<Rightarrow> real \<Rightarrow> real \<Rightarrow> real" where
  "entry_number_float u label lo hi v =
     (case map_of u label of
        Some (PyFloat e) \<Rightarrow> if in_bounds lo (Some hi) e then e else v
      | Some (PyInt e) \<Rightarrow> if in_bounds lo (Some hi) (of_int e) then of_int e else v
      | _ \<Rightarrow> v)"

definition entry_button :: "(string \<times> cell) list \<Rightarrow> string \<Rightarrow> bool" where
  "entry_button u label = (map_of u label = Some (PyInt 1))"

definition entry_form :: "(string \<times> cell) list streamlit" where
  "entry_form =
     \<lparr>selectbox = entry_selectbox,
      number_input_int = entry_number_int,
      number_input_float = entry_number_float,
      slider = (\<lambda>u label lo hi v. entry_number_int u label lo (Some hi) v),
      form_submit_button = entry_button\<rparr>"

section \<open>Loading, the application object, and a run\<close>


record ('s, 'f) SleepDisorderApp =
  model :: "'f \<Rightarrow> py_error + cell list"
  preprocessor :: "'s \<Rightarrow> frame \<Rightarrow> (py_error + 'f) \<times> 's"
  preprocessor_state :: 's






text \<open>Lines 221 to 225: the prediction and its display, inside one \<^verbatim>\<open>try\<close>.\<close>

definition predict_and_display :: "('f \<Rightarrow> py_error + cell list) \<Rightarrow> 'f \<Rightarrow> 'f event list" where
  "predict_and_display m processed_data =
     Called_predict processed_data #
     (case m processed_data of
        Inl e \<Rightarrow> [St_error (''Error making prediction: '' @ str_of e)]
      | Inr prediction \<Rightarrow>
          (case display_prediction (Some prediction) of
             Inl e \<Rightarrow> [St_error (''Error making prediction: '' @ str_of e)]
           | Inr shown \<Rightarrow> shown))"

text \<open>Lines 210 to 225: what a run shows and calls, and the application object after it.\<close>

definition run ::
  "'u streamlit \<Rightarrow> 'u \<Rightarrow> ('s, 'f) SleepDisorderApp \<Rightarrow> 'f event list \<times> ('s, 'f) SleepDisorderApp" where
  "run st u app =
     (case get_user_input st u of (submit_button, input_data) \<Rightarrow>
        if submit_button then
          (case preprocess_input (preprocessor app) (preprocessor_state app) input_data of
             ((processed_data, evs), s') \<Rightarrow>
               (Title # evs @
                  (case processed_data of
                     None \<Rightarrow> []
                   | Some v \<Rightarrow> predict_and_display (model app) v),
                app\<lparr>preprocessor_state := s'\<rparr>))
        else ([Title], app))"



text \<open>The errors a run shows.\<close>

fun shown_errors :: "'f event list \<Rightarrow> string list" where
  "shown_errors [] = []"
| "shown_errors (St_error m # evs) = m # shown_errors evs"
| "shown_errors (e # evs) = shown_errors evs"

section \<open>Properties of the result mapper\<close>

lemma map_of_recommendations:
  "map_of recommendations ''Insomnia'' =
     Some [''Maintain a consistent sleep schedule'', ''Create a relaxing bedtime routine'',
           ''Avoid screens before bedtime'', ''Consider consulting a sleep specialist'']"
  "map_of recommendations ''Sleep Apnea'' =
     Some [''Sleep on your side instead of your back'', ''Maintain a healthy weight'',
           ''Consider using a CPAP machine'',
           ''Consult a healthcare provider for proper diagnosis'']"
  "map_of recommendations ''No Disorder'' =
     Some [''Continue maintaining good sleep habits'', ''Stay physically active'',
           ''Monitor sleep quality regularly'', ''Practice stress management'']"
  "map_of recommendations ''Unknown'' = None"
  by (simp_all add: recommendations_def)

text \<open>
  C1. The label lookup of \<^verbatim>\<open>display_prediction\<close> is total. For every label value, a
  label equal to 0.0, 1.0 or 2.0 (as Python compares dict keys) gives that key's entry of
  the fixed table, and a label equal to none of them gives ("Unknown", gray); and
  \<^verbatim>\<open>display_prediction\<close> raises nothing: it shows the heading, the looked-up name in
  the looked-up colour, and the recommendations of that name.
\<close>

theorem mapResult_total:
  "(py_eq (PyFloat 0) label \<longrightarrow> disorder_of label = (''Insomnia'', ''red'')) \<and>
   (py_eq (PyFloat 1) label \<longrightarrow> disorder_of label = (''No Disorder'', ''green'')) \<and>
   (py_eq (PyFloat 2) label \<longrightarrow> disorder_of label = (''Sleep Apnea'', ''orange'')) \<and>
   (\<not> py_eq (PyFloat 0) label \<and> \<not> py_eq (PyFloat 1) label \<and> \<not> py_eq (PyFloat 2) label
      \<longrightarrow> disorder_of label = (''Unknown'', ''gray'')) \<and>
   (display_prediction (Some (label # rest)) :: py_error + 'f event list) =
      Inr ([Result_heading, Result_text (snd (disorder_of label)) (fst (disorder_of label))] @
           display_recommendations (fst (disorder_of label)))"
proof -
  have table: "disorder_of label =
      (if py_eq (PyFloat 0) label then (''Insomnia'', ''red'')
       else if py_eq (PyFloat 1) label then (''No Disorder'', ''green'')
       else if py_eq (PyFloat 2) label then (''Sleep Apnea'', ''orange'')
       else (''Unknown'', ''gray''))"
    by (simp add: disorder_of_def DISORDER_MAPPING_def)
  have excl: "\<not> (py_eq (PyFloat 0) label \<and> py_eq (PyFloat 1) label)"
    "\<not> (py_eq (PyFloat 0) label \<and> py_eq (PyFloat 2) label)"
    "\<not> (py_eq (PyFloat 1) label \<and> py_eq (PyFloat 2) label)"
    by (cases label; simp)+
  have shown: "(display_prediction (Some (label # rest)) :: py_error + 'f event list) =
      Inr ([Result_heading, Result_text (snd (disorder_of label)) (fst (disorder_of label))] @
           display_recommendations (fst (disorder_of label)))"
    by (cases "disorder_of label") simp
  from excl show ?thesis
    unfolding shown by (simp add: table)
qed

theorem mapResult_total_witness:
  "py_eq (PyFloat 0) (PyInt 0) \<and> disorder_of (PyInt 0) = (''Insomnia'', ''red'') \<and>
   py_eq (PyFloat 1) (PyFloat 1) \<and> disorder_of (PyFloat 1) = (''No Disorder'', ''green'') \<and>
   py_eq (PyFloat 2) (PyInt 2) \<and> disorder_of (PyInt 2) = (''Sleep Apnea'', ''orange'') \<and>
   \<not> py_eq (PyFloat 0) PyNaN \<and> \<not> py_eq (PyFloat 1) PyNaN \<and> \<not> py_eq (PyFloat 2) PyNaN \<and>
   disorder_of PyNaN = (''Unknown'', ''gray'') \<and>
   \<not> py_eq (PyFloat 0) (PyFloat 3) \<and> \<not> py_eq (PyFloat 1) (PyFloat 3) \<and>
   \<not> py_eq (PyFloat 2) (PyFloat 3) \<and>
   disorder_of (PyFloat 3) = (''Unknown'', ''gray'') \<and>
   (display_prediction (Some [PyFloat 3]) :: py_error + unit event list) =
      Inr [Result_heading, Result_text ''gray'' ''Unknown'']"
proof -
  have a: "py_eq (PyFloat 0) (PyInt 0)" "py_eq (PyFloat 1) (PyFloat 1)" "py_eq (PyFloat 2) (PyInt 2)"
    by simp_all
  have b: "\<not> py_eq (PyFloat 0) PyNaN \<and> \<not> py_eq (PyFloat 1) PyNaN \<and> \<not> py_eq (PyFloat 2) PyNaN"
    "\<not> py_eq (PyFloat 0) (PyFloat 3) \<and> \<not> py_eq (PyFloat 1) (PyFloat 3) \<and>
     \<not> py_eq (PyFloat 2) (PyFloat 3)"
    by simp_all
  note t0 = mapResult_total [where 'f = unit and label = "PyInt 0" and rest = "[]"]
  note t1 = mapResult_total [where 'f = unit and label = "PyFloat 1" and rest = "[]"]
  note t2 = mapResult_total [where 'f = unit and label = "PyInt 2" and rest = "[]"]
  note tn = mapResult_total [where 'f = unit and label = PyNaN and rest = "[]"]
  note t3 = mapResult_total [where 'f = unit and label = "PyFloat 3" and rest = "[]"]
  have d0: "disorder_of (PyInt 0) = (''Insomnia'', ''red'')" using t0 a(1) by blast
  have d1: "disorder_of (PyFloat 1) = (''No Disorder'', ''green'')" using t1 a(2) by blast
  have d2: "disorder_of (PyInt 2) = (''Sleep Apnea'', ''orange'')" using t2 a(3) by blast
  have dn: "disorder_of PyNaN = (''Unknown'', ''gray'')" using tn b(1) by blast
  have d3: "disorder_of (PyFloat 3) = (''Unknown'', ''gray'')" using t3 b(2) by blast
  have s3: "(display_prediction (Some [PyFloat 3]) :: py_error + unit event list) =
      Inr [Result_heading, Result_text ''gray'' ''Unknown'']"
    using t3 by (simp add: d3 display_recommendations_def map_of_recommendations)
  from a b d0 d1 d2 dn d3 s3 show ?thesis by simp
qed

text \<open>
  C6, as stated: each of "Insomnia", "Sleep Apnea" and "No Disorder" has exactly 3 entries.
  The list of "Insomnia" does not have 3 entries.
\<close>

theorem recommendations_three_counterexample:
  "\<not> (case map_of recommendations ''Insomnia'' of None \<Rightarrow> False | Some recs \<Rightarrow> length recs = 3)"
  by (simp add: map_of_recommendations)

text \<open>
  C6, amended. The recommendations mapping is a fixed mapping from disorder name to an
  ordered list of guidance strings with exactly 4 entries for each of "Insomnia",
  "Sleep Apnea" and "No Disorder"; these three are its only keys, so "Unknown" has no
  entry, and \<^verbatim>\<open>display_recommendations\<close> shows nothing for it.
\<close>

theorem recommendations_four:
  "map (\<lambda>d. map_option length (map_of recommendations d))
     [''Insomnia'', ''Sleep Apnea'', ''No Disorder'', ''Unknown''] = [Some 4, Some 4, Some 4, None] \<and>
   dom (map_of recommendations) = {''Insomnia'', ''Sleep Apnea'', ''No Disorder''} \<and>
   (display_recommendations ''Unknown'' :: 'f event list) = []"
proof -
  have "dom (map_of recommendations) = fst ` set recommendations"
    by (rule dom_map_of_conv_image_fst)
  also have "\<dots> = {''Insomnia'', ''Sleep Apnea'', ''No Disorder''}"
    by (simp add: recommendations_def)
  finally show ?thesis
    by (simp add: map_of_recommendations display_recommendations_def)
qed

text \<open>
  C7. When the classifier returns the label 1.0, the result shown is "No Disorder" in
  green, followed by the recommendations of "No Disorder", which are exactly 4.
\<close>

theorem no_disorder_result:
  "disorder_of (PyFloat 1) = (''No Disorder'', ''green'') \<and>
   (display_prediction (Some [PyFloat 1]) :: py_error + 'f event list) =
     Inr [Result_heading, Result_text ''green'' ''No Disorder'', Recommendations_heading,
          Recommendation ''Continue maintaining good sleep habits'',
          Recommendation ''Stay physically active'',
          Recommendation ''Monitor sleep quality regularly'',
          Recommendation ''Practice stress management''] \<and>
   predict_and_display (\<lambda>v. Inr [PyFloat 1]) (v :: 'f) =
     [Called_predict v, Result_heading, Result_text ''green'' ''No Disorder'',
      Recommendations_heading,
      Recommendation ''Continue maintaining good sleep habits'',
      Recommendation ''Stay physically active'',
      Recommendation ''Monitor sleep quality regularly'',
      Recommendation ''Practice stress management''] \<and>
   map_option length (map_of recommendations (fst (disorder_of (PyFloat 1)))) = Some 4"
proof -
  have d: "disorder_of (PyFloat 1) = (''No Disorder'', ''green'')"
    by (simp add: disorder_of_def DISORDER_MAPPING_def)
  have r: "(display_recommendations ''No Disorder'' :: 'f event list) =
      [Recommendations_heading,
       Recommendation ''Continue maintaining good sleep habits'',
       Recommendation ''Stay physically active'',
       Recommendation ''Monitor sleep quality regularly'',
       Recommendation ''Practice stress management'']"
    by (simp add: display_recommendations_def map_of_recommendations)
  show ?thesis
    by (simp add: d r predict_and_display_def map_of_recommendations)
qed

section \<open>Properties of the transform stage\<close>

lemma sqrt_nine: "sqrt 9 = 3"
proof -
  have "sqrt ((3::real)\<^sup>2) = 3" by (simp only: real_sqrt_abs abs_numeral)
  then show ?thesis by simp
qed

lemma sqrt_seven_half: "\<bar>sqrt (15 / 2) - 27386 / 10000\<bar> \<le> 1 / 10000"
proof -
  have lo: "27385 / 10000 \<le> sqrt (15 / 2)"
    by (rule real_le_rsqrt) (simp add: power2_eq_square)
  have hi: "sqrt (15 / 2) \<le> 27387 / 10000"
    by (rule real_le_lsqrt) (simp_all add: power2_eq_square)
  from lo hi show ?thesis by linarith
qed

text \<open>
  C9. The square-root step gives 0 for 0 hours (a value, not an error), 3 for 9 hours,
  and for 7.5 hours a value within 0.0001 of 2.7386. The roots are those of the real
  numbers; for 0 hours the frame that leaves lines 114 and 115 holds the root 0.
\<close>

theorem sqrt_point_values:
  "np_sqrt [PyFloat 0] = Inr [PyFloat 0] \<and>
   np_sqrt [PyFloat 9] = Inr [PyFloat 3] \<and>
   (\<exists>r. np_sqrt [PyFloat (15 / 2)] = Inr [PyFloat r] \<and> \<bar>r - 27386 / 10000\<bar> \<le> 1 / 10000) \<and>
   sqrt_and_drop [(''Sleep Duration'', [PyFloat 0])] = Inr [(''Sleep Duration Sqrt'', [PyFloat 0])]"
  using sqrt_seven_half
  by (simp add: np_sqrt_def sqrt_nine sqrt_and_drop_def getitem_def drop_columns_def)

lemma sqrt_and_drop_get_user_input:
  assumes "0 \<le> number_input_float st u ''Sleep Duration (hours)'' 0 24 (15 / 2)"
  shows "sqrt_and_drop (snd (get_user_input st u)) =
     Inr (filter (\<lambda>(n, c). n \<noteq> ''Sleep Duration'') (snd (get_user_input st u)) @
          [(''Sleep Duration Sqrt'',
            [PyFloat (sqrt (number_input_float st u ''Sleep Duration (hours)'' 0 24 (15 / 2)))])])"
  using assms
  by (simp add: get_user_input_def Let_def sqrt_and_drop_def getitem_def np_sqrt_def
      drop_columns_def)

lemma preprocess_input_calls:
  "sqrt_and_drop data = Inr d \<Longrightarrow>
   preprocess_input tr s data =
     (case tr s d of
        (Inl e, s') \<Rightarrow>
          ((None, [Called_transform d, St_error (''Error in preprocessing: '' @ str_of e)]), s')
      | (Inr v, s') \<Rightarrow> ((Some v, [Called_transform d]), s'))"
  by (simp add: preprocess_input_def)

lemma preprocess_input_transform_calls:
  "Called_transform x \<in> set (snd (fst (preprocess_input tr s data))) \<Longrightarrow> sqrt_and_drop data = Inr x"
  by (auto simp: preprocess_input_def split: sum.splits prod.splits)

text \<open>
  C3. For every input whose hours of sleep are not negative, \<^verbatim>\<open>preprocess_input\<close>
  derives the column "Sleep Duration Sqrt", the square root of the hours, and drops
  "Sleep Duration": the frame it passes to the loaded transformer holds the 11 other
  columns of the input, unchanged and in their order, followed by the derived column;
  it has no "Sleep Duration" column, and the transformer is called with no other frame.
\<close>

theorem preprocess_input_replaces_hours:
  assumes "0 \<le> number_input_float st u ''Sleep Duration (hours)'' 0 24 (15 / 2)"
  shows "let input_df = snd (get_user_input st u);
             others = filter (\<lambda>(n, c). n \<noteq> ''Sleep Duration'') input_df;
             passed = others @
               [(''Sleep Duration Sqrt'',
                 [PyFloat (sqrt (number_input_float st u ''Sleep Duration (hours)'' 0 24 (15 / 2)))])]
         in sqrt_and_drop input_df = Inr passed \<and>
            map fst passed =
              [''Gender'', ''Age'', ''Occupation'', ''Quality of Sleep'', ''Physical Activity Level'',
               ''Stress Level'', ''BMI Category'', ''Systolic'', ''Diastolic'', ''Heart Rate'',
               ''Daily Steps'', ''Sleep Duration Sqrt''] \<and>
            length others = 11 \<and>
            getitem passed ''Sleep Duration'' = Inl (KeyError (quoted ''Sleep Duration'')) \<and>
            preprocess_input tr s input_df =
              (case tr s passed of
                 (Inl e, s') \<Rightarrow>
                   ((None, [Called_transform passed,
                            St_error (''Error in preprocessing: '' @ str_of e)]), s')
               | (Inr v, s') \<Rightarrow> ((Some v, [Called_transform passed]), s')) \<and>
            (\<forall>x. Called_transform x \<in> set (snd (fst (preprocess_input tr s input_df)))
                 \<longrightarrow> x = passed)"
proof -
  define input_df where "input_df = snd (get_user_input st u)"
  define others where "others = filter (\<lambda>(n, c). n \<noteq> ''Sleep Duration'') input_df"
  define passed where "passed = others @
       [(''Sleep Duration Sqrt'',
         [PyFloat (sqrt (number_input_float st u ''Sleep Duration (hours)'' 0 24 (15 / 2)))])]"
  have sd: "sqrt_and_drop input_df = Inr passed"
    unfolding passed_def others_def input_df_def
    by (rule sqrt_and_drop_get_user_input [OF assms])
  have names: "map fst others =
      [''Gender'', ''Age'', ''Occupation'', ''Quality of Sleep'', ''Physical Activity Level'',
       ''Stress Level'', ''BMI Category'', ''Systolic'', ''Diastolic'', ''Heart Rate'',
       ''Daily Steps'']"
    unfolding others_def input_df_def by (simp add: get_user_input_def Let_def)
  have all_names: "map fst passed =
      [''Gender'', ''Age'', ''Occupation'', ''Quality of Sleep'', ''Physical Activity Level'',
       ''Stress Level'', ''BMI Category'', ''Systolic'', ''Diastolic'', ''Heart Rate'',
       ''Daily Steps'', ''Sleep Duration Sqrt'']"
    unfolding passed_def by (simp only: map_append names list.map fst_conv append.simps)
  have len: "length others = 11"
    using arg_cong [OF names, of length] by simp
  have "''Sleep Duration'' \<notin> set (map fst passed)"
    unfolding all_names by simp
  then have "map_of passed ''Sleep Duration'' = None"
    by (simp add: map_of_eq_None_iff)
  then have gone: "getitem passed ''Sleep Duration'' = Inl (KeyError (quoted ''Sleep Duration''))"
    by (simp add: getitem_def)
  have calls: "preprocess_input tr s input_df =
      (case tr s passed of
         (Inl e, s') \<Rightarrow>
           ((None, [Called_transform passed,
                    St_error (''Error in preprocessing: '' @ str_of e)]), s')
       | (Inr v, s') \<Rightarrow> ((Some v, [Called_transform passed]), s'))"
    by (rule preprocess_input_calls [OF sd])
  have only: "\<forall>x. Called_transform x \<in> set (snd (fst (preprocess_input tr s input_df)))
      \<longrightarrow> x = passed"
  proof (intro allI impI)
    fix x
    assume "Called_transform x \<in> set (snd (fst (preprocess_input tr s input_df)))"
    from preprocess_input_transform_calls [OF this] sd show "x = passed" by simp
  qed
  from sd all_names len gone calls only
  have "sqrt_and_drop input_df = Inr passed \<and>
      map fst passed =
        [''Gender'', ''Age'', ''Occupation'', ''Quality of Sleep'', ''Physical Activity Level'',
         ''Stress Level'', ''BMI Category'', ''Systolic'', ''Diastolic'', ''Heart Rate'',
         ''Daily Steps'', ''Sleep Duration Sqrt''] \<and>
      length others = 11 \<and>
      getitem passed ''Sleep Duration'' = Inl (KeyError (quoted ''Sleep Duration'')) \<and>
      preprocess_input tr s input_df =
        (case tr s passed of
           (Inl e, s') \<Rightarrow>
             ((None, [Called_transform passed,
                      St_error (''Error in preprocessing: '' @ str_of e)]), s')
         | (Inr v, s') \<Rightarrow> ((Some v, [Called_transform passed]), s')) \<and>
      (\<forall>x. Called_transform x \<in> set (snd (fst (preprocess_input tr s input_df)))
           \<longrightarrow> x = passed)"
    by (intro conjI)
  then show ?thesis
    unfolding Let_def passed_def others_def input_df_def .
qed

lemma entry_form_simps:
  "selectbox entry_form = entry_selectbox"
  "number_input_int entry_form = entry_number_int"
  "number_input_float entry_form = entry_number_float"
  "slider entry_form = (\<lambda>u label lo hi v. entry_number_int u label lo (Some hi) v)"
  "form_submit_button entry_form = entry_button"
  by (simp_all add: entry_form_def)

lemmas entry_defs =
  entry_form_simps entry_selectbox_def entry_number_int_def entry_number_float_def
  entry_button_def in_bounds_def OCCUPATIONS_def BMI_CATEGORIES_def

theorem preprocess_input_replaces_hours_witness:
  "0 \<le> number_input_float entry_form
          [(''Gender'', PyStr ''Female''), (''Age'', PyInt 45), (''Sleep Duration (hours)'', PyFloat 9)]
          ''Sleep Duration (hours)'' 0 24 (15 / 2) \<and>
   sqrt_and_drop (snd (get_user_input entry_form
          [(''Gender'', PyStr ''Female''), (''Age'', PyInt 45), (''Sleep Duration (hours)'', PyFloat 9)])) =
     Inr [(''Gender'', [PyStr ''Female'']), (''Age'', [PyInt 45]), (''Occupation'', [PyStr ''Others'']),
          (''Quality of Sleep'', [PyInt 7]), (''Physical Activity Level'', [PyInt 30]),
          (''Stress Level'', [PyInt 5]), (''BMI Category'', [PyStr ''Normal Weight'']),
          (''Systolic'', [PyInt 120]), (''Diastolic'', [PyInt 80]), (''Heart Rate'', [PyInt 70]),
          (''Daily Steps'', [PyInt 10000]), (''Sleep Duration Sqrt'', [PyFloat 3])]"
proof -
  let ?u = "[(''Gender'', PyStr ''Female''), (''Age'', PyInt 45), (''Sleep Duration (hours)'', PyFloat 9)]"
  have h: "0 \<le> number_input_float entry_form ?u ''Sleep Duration (hours)'' 0 24 (15 / 2)"
    by (simp add: entry_defs)
  have v: "number_input_float entry_form ?u ''Sleep Duration (hours)'' 0 24 (15 / 2) = 9"
    by (simp add: entry_defs)
  have f: "filter (\<lambda>(n, c). n \<noteq> ''Sleep Duration'') (snd (get_user_input entry_form ?u)) =
     [(''Gender'', [PyStr ''Female'']), (''Age'', [PyInt 45]), (''Occupation'', [PyStr ''Others'']),
      (''Quality of Sleep'', [PyInt 7]), (''Physical Activity Level'', [PyInt 30]),
      (''Stress Level'', [PyInt 5]), (''BMI Category'', [PyStr ''Normal Weight'']),
      (''Systolic'', [PyInt 120]), (''Diastolic'', [PyInt 80]), (''Heart Rate'', [PyInt 70]),
      (''Daily Steps'', [PyInt 10000])]"
    by (simp add: get_user_input_def Let_def entry_defs)
  note t = preprocess_input_replaces_hours
    [OF h, of LabelEncoderTransformer_transform "\<lparr>encoder = None\<rparr>", unfolded Let_def]
  have "sqrt_and_drop (snd (get_user_input entry_form ?u)) =
      Inr (filter (\<lambda>(n, c). n \<noteq> ''Sleep Duration'') (snd (get_user_input entry_form ?u)) @
        [(''Sleep Duration Sqrt'',
           [PyFloat (sqrt (number_input_float entry_form ?u ''Sleep Duration (hours)'' 0 24 (15 / 2)))])])"
    by (rule t [THEN conjunct1])
  then have "sqrt_and_drop (snd (get_user_input entry_form ?u)) =
     Inr [(''Gender'', [PyStr ''Female'']), (''Age'', [PyInt 45]), (''Occupation'', [PyStr ''Others'']),
          (''Quality of Sleep'', [PyInt 7]), (''Physical Activity Level'', [PyInt 30]),
          (''Stress Level'', [PyInt 5]), (''BMI Category'', [PyStr ''Normal Weight'']),
          (''Systolic'', [PyInt 120]), (''Diastolic'', [PyInt 80]), (''Heart Rate'', [PyInt 70]),
          (''Daily Steps'', [PyInt 10000]), (''Sleep Duration Sqrt'', [PyFloat 3])]"
    by (simp only: f v sqrt_nine append.simps)
  with h show ?thesis by (rule conjI)
qed

section \<open>Properties of a run\<close>

lemma display_prediction_no_predict:
  "display_prediction p = Inr shown \<Longrightarrow> Called_predict w \<notin> set shown"
  by (cases p rule: display_prediction.cases)
     (auto simp: display_recommendations_def split: prod.splits option.splits)

lemma predict_and_display_calls:
  "Called_predict w \<in> set (predict_and_display m v) \<Longrightarrow> w = v"
  by (auto simp: predict_and_display_def split: sum.splits dest: display_prediction_no_predict)

lemma preprocess_input_no_predict:
  "Called_predict w \<notin> set (snd (fst (preprocess_input tr s data)))"
  by (auto simp: preprocess_input_def split: sum.splits prod.splits)
text \<open>
  C4. If the transform stage gives no feature matrix (\<^verbatim>\<open>preprocess_input\<close> returns
  \<^verbatim>\<open>None\<close>), the run never calls the classifier's \<^verbatim>\<open>predict\<close>. Whenever a run
  calls \<^verbatim>\<open>predict\<close>, the form was submitted and the argument is the feature matrix
  that \<^verbatim>\<open>preprocess_input\<close> produced; and a submitted run whose transform stage
  produced a feature matrix does call \<^verbatim>\<open>predict\<close> on it.
\<close>

theorem transform_failure_skips_predict:
  "(fst (fst (preprocess_input (preprocessor app) (preprocessor_state app)
        (snd (get_user_input st u)))) = None
      \<longrightarrow> (\<forall>v. Called_predict v \<notin> set (fst (run st u app)))) \<and>
   (\<forall>v. Called_predict v \<in> set (fst (run st u app))
      \<longrightarrow> fst (get_user_input st u) \<and>
          fst (fst (preprocess_input (preprocessor app) (preprocessor_state app)
            (snd (get_user_input st u)))) = Some v) \<and>
   (\<forall>v. fst (get_user_input st u) \<and>
        fst (fst (preprocess_input (preprocessor app) (preprocessor_state app)
            (snd (get_user_input st u)))) = Some v
      \<longrightarrow> Called_predict v \<in> set (fst (run st u app)))"
proof -
  obtain submit_button input_data where g: "get_user_input st u = (submit_button, input_data)"
    by (cases "get_user_input st u")
  obtain processed evs s' where
    p: "preprocess_input (preprocessor app) (preprocessor_state app) input_data = ((processed, evs), s')"
    by (metis surj_pair)
  have evs: "Called_predict w \<notin> set evs" for w
    using preprocess_input_no_predict [of w "preprocessor app" "preprocessor_state app" input_data]
    by (simp add: p)
  have r: "fst (run st u app) =
      (if submit_button
       then Title # evs @ (case processed of None \<Rightarrow> [] | Some v \<Rightarrow> predict_and_display (model app) v)
       else [Title])"
    by (simp add: run_def g p)
  have only: "Called_predict v \<in> set (fst (run st u app)) \<Longrightarrow> submit_button \<and> processed = Some v" for v
    using evs predict_and_display_calls [of v "model app"]
    by (auto simp: r split: if_splits option.splits)
  have called: "submit_button \<Longrightarrow> processed = Some v \<Longrightarrow> Called_predict v \<in> set (fst (run st u app))" for v
    by (simp add: r predict_and_display_def)
  have none: "processed = None \<Longrightarrow> Called_predict v \<notin> set (fst (run st u app))" for v
    using only [of v] by auto
  from only called none show ?thesis
    unfolding g p fst_conv snd_conv by blast
qed

theorem transform_failure_skips_predict_witness:
  "fst (get_user_input entry_form [(''Predict Sleep Disorder'', PyInt 1)]) \<and>
   fst (fst (preprocess_input LabelEncoderTransformer_transform \<lparr>encoder = None\<rparr>
         (snd (get_user_input entry_form [(''Predict Sleep Disorder'', PyInt 1)])))) = None \<and>
   (\<forall>v. Called_predict v \<notin> set (fst (run entry_form [(''Predict Sleep Disorder'', PyInt 1)]
       \<lparr>model = (\<lambda>v. Inr [PyFloat 1]), preprocessor = LabelEncoderTransformer_transform,
        preprocessor_state = \<lparr>encoder = None\<rparr>\<rparr>))) \<and>
   fst (fst (preprocess_input LabelEncoderTransformer_transform (LabelEncoderTransformer_fit \<lparr>encoder = None\<rparr>)
         (snd (get_user_input entry_form [(''Predict Sleep Disorder'', PyInt 1)])))) =
     Some [(''Gender'', [PyInt 0]), (''Age'', [PyInt 0]), (''Occupation'', [PyInt 0]),
           (''Quality of Sleep'', [PyInt 0]), (''Physical Activity Level'', [PyInt 0]),
           (''Stress Level'', [PyInt 0]), (''BMI Category'', [PyInt 0]),
           (''Systolic'', [PyInt 0]), (''Diastolic'', [PyInt 0]), (''Heart Rate'', [PyInt 0]),
           (''Daily Steps'', [PyInt 0]), (''Sleep Duration Sqrt'', [PyInt 0])] \<and>
   Called_predict
        [(''Gender'', [PyInt 0]), (''Age'', [PyInt 0]), (''Occupation'', [PyInt 0]),
         (''Quality of Sleep'', [PyInt 0]), (''Physical Activity Level'', [PyInt 0]),
         (''Stress Level'', [PyInt 0]), (''BMI Category'', [PyInt 0]),
         (''Systolic'', [PyInt 0]), (''Diastolic'', [PyInt 0]), (''Heart Rate'', [PyInt 0]),
         (''Daily Steps'', [PyInt 0]), (''Sleep Duration Sqrt'', [PyInt 0])]
     \<in> set (fst (run entry_form [(''Predict Sleep Disorder'', PyInt 1)]
       \<lparr>model = (\<lambda>v. Inr [PyFloat 1]), preprocessor = LabelEncoderTransformer_transform,
        preprocessor_state = LabelEncoderTransformer_fit \<lparr>encoder = None\<rparr>\<rparr>))"
proof -
  let ?u = "[(''Predict Sleep Disorder'', PyInt 1)]"
  let ?app = "\<lparr>model = (\<lambda>v. Inr [PyFloat 1]), preprocessor = LabelEncoderTransformer_transform,
        preprocessor_state = \<lparr>encoder = None\<rparr>\<rparr>"
  let ?fitted = "\<lparr>model = (\<lambda>v. Inr [PyFloat 1]), preprocessor = LabelEncoderTransformer_transform,
        preprocessor_state = LabelEncoderTransformer_fit \<lparr>encoder = None\<rparr>\<rparr>"
  let ?v = "[(''Gender'', [PyInt 0]), (''Age'', [PyInt 0]), (''Occupation'', [PyInt 0]),
         (''Quality of Sleep'', [PyInt 0]), (''Physical Activity Level'', [PyInt 0]),
         (''Stress Level'', [PyInt 0]), (''BMI Category'', [PyInt 0]),
         (''Systolic'', [PyInt 0]), (''Diastolic'', [PyInt 0]), (''Heart Rate'', [PyInt 0]),
         (''Daily Steps'', [PyInt 0]), (''Sleep Duration Sqrt'', [PyInt 0])]"
  have b: "fst (get_user_input entry_form ?u)"
    by (simp add: get_user_input_def Let_def entry_defs)
  have n: "fst (fst (preprocess_input LabelEncoderTransformer_transform \<lparr>encoder = None\<rparr>
         (snd (get_user_input entry_form ?u)))) = None"
    by (simp add: preprocess_input_def LabelEncoderTransformer_transform_def split: sum.splits)
  then have n': "fst (fst (preprocess_input (preprocessor ?app) (preprocessor_state ?app)
         (snd (get_user_input entry_form ?u)))) = None"
    by simp
  have p: "\<forall>v. Called_predict v \<notin> set (fst (run entry_form ?u ?app))"
    by (rule transform_failure_skips_predict [THEN conjunct1, THEN mp, OF n'])
  have input: "snd (get_user_input entry_form ?u) =
     [(''Gender'', [PyStr ''Male'']), (''Age'', [PyInt 30]), (''Sleep Duration'', [PyFloat (15 / 2)]),
      (''Occupation'', [PyStr ''Others'']),
      (''Quality of Sleep'', [PyInt 7]), (''Physical Activity Level'', [PyInt 30]),
      (''Stress Level'', [PyInt 5]), (''BMI Category'', [PyStr ''Normal Weight'']),
      (''Systolic'', [PyInt 120]), (''Diastolic'', [PyInt 80]), (''Heart Rate'', [PyInt 70]),
      (''Daily Steps'', [PyInt 10000])]"
    by (simp add: get_user_input_def Let_def entry_defs)
  have sd: "sqrt_and_drop (snd (get_user_input entry_form ?u)) =
     Inr [(''Gender'', [PyStr ''Male'']), (''Age'', [PyInt 30]),
      (''Occupation'', [PyStr ''Others'']),
      (''Quality of Sleep'', [PyInt 7]), (''Physical Activity Level'', [PyInt 30]),
      (''Stress Level'', [PyInt 5]), (''BMI Category'', [PyStr ''Normal Weight'']),
      (''Systolic'', [PyInt 120]), (''Diastolic'', [PyInt 80]), (''Heart Rate'', [PyInt 70]),
      (''Daily Steps'', [PyInt 10000]), (''Sleep Duration Sqrt'', [PyFloat (sqrt (15 / 2))])]"
    unfolding input
    by (simp add: sqrt_and_drop_def getitem_def np_sqrt_def drop_columns_def)
  have ft: "fst (fit_transform le [c]) = Inr [PyInt 0]" for le c
    by (cases c) (simp_all add: fit_transform_def encode_def)
  have tr: "fst (LabelEncoderTransformer_transform (LabelEncoderTransformer_fit \<lparr>encoder = None\<rparr>)
      [(''Gender'', [PyStr ''Male'']), (''Age'', [PyInt 30]),
      (''Occupation'', [PyStr ''Others'']),
      (''Quality of Sleep'', [PyInt 7]), (''Physical Activity Level'', [PyInt 30]),
      (''Stress Level'', [PyInt 5]), (''BMI Category'', [PyStr ''Normal Weight'']),
      (''Systolic'', [PyInt 120]), (''Diastolic'', [PyInt 80]), (''Heart Rate'', [PyInt 70]),
      (''Daily Steps'', [PyInt 10000]), (''Sleep Duration Sqrt'', [PyFloat (sqrt (15 / 2))])]) = Inr ?v"
    by (simp add: LabelEncoderTransformer_transform_def LabelEncoderTransformer_fit_def
        fit_transform_def encode_def)
  have s: "fst (fst (preprocess_input LabelEncoderTransformer_transform (LabelEncoderTransformer_fit \<lparr>encoder = None\<rparr>)
         (snd (get_user_input entry_form ?u)))) = Some ?v"
  proof -
    let ?F = "[(''Gender'', [PyStr ''Male'']), (''Age'', [PyInt 30]),
      (''Occupation'', [PyStr ''Others'']),
      (''Quality of Sleep'', [PyInt 7]), (''Physical Activity Level'', [PyInt 30]),
      (''Stress Level'', [PyInt 5]), (''BMI Category'', [PyStr ''Normal Weight'']),
      (''Systolic'', [PyInt 120]), (''Diastolic'', [PyInt 80]), (''Heart Rate'', [PyInt 70]),
      (''Daily Steps'', [PyInt 10000]), (''Sleep Duration Sqrt'', [PyFloat (sqrt (15 / 2))])]"
    obtain r st' where e: "LabelEncoderTransformer_transform
        (LabelEncoderTransformer_fit \<lparr>encoder = None\<rparr>) ?F = (r, st')"
      by (cases "LabelEncoderTransformer_transform
        (LabelEncoderTransformer_fit \<lparr>encoder = None\<rparr>) ?F")
    from tr have r: "r = Inr ?v"
      unfolding e fst_conv .
    show ?thesis
      using preprocess_input_calls [OF sd, of LabelEncoderTransformer_transform
          "LabelEncoderTransformer_fit \<lparr>encoder = None\<rparr>"]
      by (simp add: e r)
  qed
  then have s': "fst (get_user_input entry_form ?u) \<and>
      fst (fst (preprocess_input (preprocessor ?fitted) (preprocessor_state ?fitted)
         (snd (get_user_input entry_form ?u)))) = Some ?v"
    using b by simp
  have c: "Called_predict ?v \<in> set (fst (run entry_form ?u ?fitted))"
    by (rule transform_failure_skips_predict [THEN conjunct2, THEN conjunct2, THEN spec, THEN mp, OF s'])
  from b n p s c show ?thesis by (intro conjI)
qed

section \<open>Properties of the label encoder\<close>

lemma fit_transform_state_free: "fst (fit_transform le y) = fst (fit_transform le' y)"
  by (simp add: fit_transform_def split: option.splits prod.splits)

lemma apply_fit_transform_state_free:
  "fst (apply_fit_transform le X) = fst (apply_fit_transform le' X)"
proof (induction X arbitrary: le le')
  case Nil
  show ?case by simp
next
  case (Cons column X)
  obtain name col where column: "column = (name, col)" by (cases column)
  obtain r1 l1 where f1: "fit_transform le col = (r1, l1)" by (cases "fit_transform le col")
  obtain r2 l2 where f2: "fit_transform le' col = (r2, l2)" by (cases "fit_transform le' col")
  have r: "r1 = r2"
    using fit_transform_state_free [of le col le'] by (simp add: f1 f2)
  show ?case
    using Cons.IH [of l1 l2]
    by (auto simp: column f1 f2 r split: sum.splits prod.splits)
qed

lemma transform_state_free:
  assumes "encoder self = Some le" and "encoder self' = Some le'"
  shows "fst (LabelEncoderTransformer_transform self X) = fst (LabelEncoderTransformer_transform self' X)"
  using assms apply_fit_transform_state_free [of le X le']
  by (auto simp: LabelEncoderTransformer_transform_def split: prod.splits)

lemma transform_keeps_encoder:
  "encoder self = Some le \<Longrightarrow> \<exists>le'. encoder (snd (LabelEncoderTransformer_transform self X)) = Some le'"
  by (simp add: LabelEncoderTransformer_transform_def split: prod.splits)

lemma transform_unfitted:
  "encoder self = None \<Longrightarrow> snd (LabelEncoderTransformer_transform self X) = self"
  by (simp add: LabelEncoderTransformer_transform_def)



lemma transform_result:
  "fst (LabelEncoderTransformer_transform self X) =
     (case encoder self of
        None \<Rightarrow> Inl (AttributeError (quoted ''LabelEncoderTransformer'' @ '' object has no attribute '' @ quoted ''encoder''))
      | Some le \<Rightarrow> fst (apply_fit_transform \<lparr>classes_ = None\<rparr> X))"
proof (cases "encoder self")
  case None
  then show ?thesis by (simp add: LabelEncoderTransformer_transform_def)
next
  case (Some le)
  obtain r le' where e: "apply_fit_transform le X = (r, le')"
    by (cases "apply_fit_transform le X")
  from apply_fit_transform_state_free [of le X "\<lparr>classes_ = None\<rparr>"]
  have "r = fst (apply_fit_transform \<lparr>classes_ = None\<rparr> X)"
    by (simp add: e)
  then show ?thesis
    by (simp add: LabelEncoderTransformer_transform_def Some e)
qed

lemma transform_fitted_after:
  "(encoder (snd (LabelEncoderTransformer_transform self X)) = None) = (encoder self = None)"
  by (auto simp: LabelEncoderTransformer_transform_def split: option.splits prod.splits)

lemma preprocess_input_result:
  "fst (fst (preprocess_input tr s data)) =
     (case sqrt_and_drop data of
        Inl e \<Rightarrow> None
      | Inr d \<Rightarrow> (case fst (tr s d) of Inl e \<Rightarrow> None | Inr v \<Rightarrow> Some v))"
  by (auto simp: preprocess_input_def split: sum.splits prod.splits)

lemma preprocess_input_state:
  "snd (preprocess_input tr s data) =
     (case sqrt_and_drop data of Inl e \<Rightarrow> s | Inr d \<Rightarrow> snd (tr s d))"
  by (auto simp: preprocess_input_def split: sum.splits prod.splits)



text \<open>
  C8. The transform stage is deterministic where the state of the transformer could
  make it otherwise. With \<^verbatim>\<open>LabelEncoderTransformer\<close> as the loaded transformer, a second
  run of \<^verbatim>\<open>preprocess_input\<close> on the same input, starting from the encoder state the
  first run left behind, returns the same feature matrix as the first, and so do two runs
  from any two fitted states. With any loaded transformer whose \<^verbatim>\<open>transform\<close> result
  does not depend on the state earlier calls left, \<^verbatim>\<open>preprocess_input\<close> adds no
  dependence of its own: a second run returns the same feature matrix as the first.
\<close>

theorem preprocess_input_deterministic:
  "fst (fst (preprocess_input LabelEncoderTransformer_transform
          (snd (preprocess_input LabelEncoderTransformer_transform self data)) data)) =
   fst (fst (preprocess_input LabelEncoderTransformer_transform self data)) \<and>
   (encoder self \<noteq> None \<and> encoder self' \<noteq> None \<longrightarrow>
      fst (fst (preprocess_input LabelEncoderTransformer_transform self' data)) =
      fst (fst (preprocess_input LabelEncoderTransformer_transform self data))) \<and>
   ((\<forall>s s' d. fst (tr s d) = fst (tr s' d)) \<longrightarrow>
      fst (fst (preprocess_input tr (snd (preprocess_input tr s0 data)) data)) =
      fst (fst (preprocess_input tr s0 data)))"
proof -
  have same: "fst (LabelEncoderTransformer_transform a X) = fst (LabelEncoderTransformer_transform b X)"
    if "(encoder a = None) = (encoder b = None)" for a b X
    using that by (cases "encoder a"; cases "encoder b"; simp add: transform_result)
  have two: "fst (fst (preprocess_input LabelEncoderTransformer_transform a data)) =
      fst (fst (preprocess_input LabelEncoderTransformer_transform b data))"
    if "(encoder a = None) = (encoder b = None)" for a b
    using same [OF that] by (simp add: preprocess_input_result split: sum.splits)
  have after: "(encoder (snd (preprocess_input LabelEncoderTransformer_transform self data)) = None) =
      (encoder self = None)"
    by (simp add: preprocess_input_state transform_fitted_after split: sum.splits)
  have any: "encoder self \<noteq> None \<and> encoder self' \<noteq> None \<longrightarrow>
      fst (fst (preprocess_input LabelEncoderTransformer_transform self' data)) =
      fst (fst (preprocess_input LabelEncoderTransformer_transform self data))"
  proof (intro impI)
    assume "encoder self \<noteq> None \<and> encoder self' \<noteq> None"
    then have "(encoder self' = None) = (encoder self = None)" by auto
    from two [OF this] show "fst (fst (preprocess_input LabelEncoderTransformer_transform self' data)) =
      fst (fst (preprocess_input LabelEncoderTransformer_transform self data))" .
  qed
  have general: "(\<forall>s s' d. fst (tr s d) = fst (tr s' d)) \<longrightarrow>
      fst (fst (preprocess_input tr (snd (preprocess_input tr s0 data)) data)) =
      fst (fst (preprocess_input tr s0 data))"
  proof (intro impI)
    assume free: "\<forall>s s' d. fst (tr s d) = fst (tr s' d)"
    show "fst (fst (preprocess_input tr (snd (preprocess_input tr s0 data)) data)) =
      fst (fst (preprocess_input tr s0 data))"
    proof (cases "sqrt_and_drop data")
      case (Inl e)
      then show ?thesis by (simp add: preprocess_input_result)
    next
      case (Inr d)
      from free have "fst (tr (snd (preprocess_input tr s0 data)) d) = fst (tr s0 d)"
        by blast
      then show ?thesis by (simp add: preprocess_input_result Inr)
    qed
  qed
  from two [OF after] any general show ?thesis by (intro conjI)
qed

theorem preprocess_input_deterministic_witness:
  "encoder (LabelEncoderTransformer_fit \<lparr>encoder = None\<rparr>) \<noteq> None \<and>
   encoder \<lparr>encoder = Some \<lparr>classes_ = Some [PyStr ''Male'']\<rparr>\<rparr> \<noteq> None \<and>
   fst (fst (preprocess_input LabelEncoderTransformer_transform
          \<lparr>encoder = Some \<lparr>classes_ = Some [PyStr ''Male'']\<rparr>\<rparr>
          [(''Gender'', [PyStr ''Female'']), (''Sleep Duration'', [PyFloat 9])])) =
   fst (fst (preprocess_input LabelEncoderTransformer_transform
          (LabelEncoderTransformer_fit \<lparr>encoder = None\<rparr>)
          [(''Gender'', [PyStr ''Female'']), (''Sleep Duration'', [PyFloat 9])])) \<and>
   fst (fst (preprocess_input LabelEncoderTransformer_transform
          (LabelEncoderTransformer_fit \<lparr>encoder = None\<rparr>)
          [(''Gender'', [PyStr ''Female'']), (''Sleep Duration'', [PyFloat 9])])) =
     Some [(''Gender'', [PyInt 0]), (''Sleep Duration Sqrt'', [PyInt 0])] \<and>
   (\<forall>s s' d. fst ((\<lambda>(s :: nat) (d :: frame). (Inr d :: py_error + frame, Suc s)) s d) =
              fst ((\<lambda>(s :: nat) (d :: frame). (Inr d :: py_error + frame, Suc s)) s' d)) \<and>
   fst (fst (preprocess_input (\<lambda>(s :: nat) (d :: frame). (Inr d :: py_error + frame, Suc s))
          (snd (preprocess_input (\<lambda>(s :: nat) (d :: frame). (Inr d :: py_error + frame, Suc s)) 0
                 [(''Gender'', [PyStr ''Female'']), (''Sleep Duration'', [PyFloat 9])]))
          [(''Gender'', [PyStr ''Female'']), (''Sleep Duration'', [PyFloat 9])])) =
   fst (fst (preprocess_input (\<lambda>(s :: nat) (d :: frame). (Inr d :: py_error + frame, Suc s)) 0
          [(''Gender'', [PyStr ''Female'']), (''Sleep Duration'', [PyFloat 9])]))"
proof -
  let ?a = "LabelEncoderTransformer_fit \<lparr>encoder = None\<rparr>"
  let ?b = "\<lparr>encoder = Some \<lparr>classes_ = Some [PyStr ''Male'']\<rparr>\<rparr>"
  let ?data = "[(''Gender'', [PyStr ''Female'']), (''Sleep Duration'', [PyFloat 9])]"
  let ?tr = "\<lambda>(s :: nat) (d :: frame). (Inr d :: py_error + frame, Suc s)"
  have fa: "encoder ?a \<noteq> None"
    by (simp add: LabelEncoderTransformer_fit_def)
  have fb: "encoder ?b \<noteq> None"
    by simp
  from fa fb have f: "encoder ?a \<noteq> None \<and> encoder ?b \<noteq> None" by (rule conjI)
  have e: "fst (fst (preprocess_input LabelEncoderTransformer_transform ?b ?data)) =
      fst (fst (preprocess_input LabelEncoderTransformer_transform ?a ?data))"
    by (rule preprocess_input_deterministic [THEN conjunct2, THEN conjunct1, THEN mp, OF f])
  have sd: "sqrt_and_drop ?data =
      Inr [(''Gender'', [PyStr ''Female'']), (''Sleep Duration Sqrt'', [PyFloat 3])]"
    by (simp add: sqrt_and_drop_def getitem_def np_sqrt_def drop_columns_def sqrt_nine)
  have v: "fst (fst (preprocess_input LabelEncoderTransformer_transform ?a ?data)) =
      Some [(''Gender'', [PyInt 0]), (''Sleep Duration Sqrt'', [PyInt 0])]"
    by (simp add: preprocess_input_result sd transform_result LabelEncoderTransformer_fit_def
        fit_transform_def encode_def)
  have free: "\<forall>s s' d. fst (?tr s d) = fst (?tr s' d)"
    by simp
  have g: "fst (fst (preprocess_input ?tr (snd (preprocess_input ?tr 0 ?data)) ?data)) =
      fst (fst (preprocess_input ?tr 0 ?data))"
    by (rule preprocess_input_deterministic
        [THEN conjunct2, THEN conjunct2, THEN mp, OF free])
  from fa fb e v free g show ?thesis by (intro conjI)
qed

section \<open>Properties of loading\<close>





section \<open>Properties of the form\<close>

lemma entry_form_contract: "widget_contract entry_form"
  unfolding widget_contract_def entry_form_simps
  by (auto simp: entry_number_int_def entry_number_float_def entry_selectbox_def
      in_bounds_def split: option.splits cell.splits list.splits)

text \<open>
  C5, amended. \<^verbatim>\<open>get_user_input\<close> has no validation step of its own and raises no
  error naming a field: each numeric field's range is the \<^verbatim>\<open>min_value\<close> and
  \<^verbatim>\<open>max_value\<close> it passes to the field's widget. With widgets that keep their value
  within the bounds they are given, every record it returns has Age in [18, 100], Sleep
  Duration in [0, 24], Quality of Sleep and Stress Level in [1, 10], Physical Activity at
  least 0, Systolic in [70, 200], Diastolic in [40, 130], Heart Rate in [40, 200], Daily
  Steps in [0, 50000], and each categorical field among its options: an entry outside a
  range, such as Age = 17, never reaches the record.
\<close>

theorem get_user_input_within_ranges:
  assumes "widget_contract st"
  shows "\<exists>gender age sleep_duration occupation quality_of_sleep physical_activity stress_level
           bmi_category systolic diastolic heart_rate daily_steps.
      snd (get_user_input st u) =
        [(''Gender'', [PyStr gender]), (''Age'', [PyInt age]),
         (''Sleep Duration'', [PyFloat sleep_duration]), (''Occupation'', [PyStr occupation]),
         (''Quality of Sleep'', [PyInt quality_of_sleep]),
         (''Physical Activity Level'', [PyInt physical_activity]),
         (''Stress Level'', [PyInt stress_level]), (''BMI Category'', [PyStr bmi_category]),
         (''Systolic'', [PyInt systolic]), (''Diastolic'', [PyInt diastolic]),
         (''Heart Rate'', [PyInt heart_rate]), (''Daily Steps'', [PyInt daily_steps])] \<and>
      gender \<in> {''Male'', ''Female''} \<and> 18 \<le> age \<and> age \<le> 100 \<and>
      0 \<le> sleep_duration \<and> sleep_duration \<le> 24 \<and> occupation \<in> set OCCUPATIONS \<and>
      1 \<le> quality_of_sleep \<and> quality_of_sleep \<le> 10 \<and> 0 \<le> physical_activity \<and>
      1 \<le> stress_level \<and> stress_level \<le> 10 \<and> bmi_category \<in> set BMI_CATEGORIES \<and>
      70 \<le> systolic \<and> systolic \<le> 200 \<and> 40 \<le> diastolic \<and> diastolic \<le> 130 \<and>
      40 \<le> heart_rate \<and> heart_rate \<le> 200 \<and> 0 \<le> daily_steps \<and> daily_steps \<le> 50000"
proof -
  from assms have ni: "in_bounds lo hi v \<Longrightarrow> in_bounds lo hi (number_input_int st u label lo hi v)"
    for label lo hi v
    unfolding widget_contract_def by blast
  from assms have nf: "in_bounds lo (Some hi) v \<Longrightarrow>
      in_bounds lo (Some hi) (number_input_float st u label lo hi v)" for label lo hi v
    unfolding widget_contract_def by blast
  from assms have sl: "in_bounds lo (Some hi) v \<Longrightarrow>
      in_bounds lo (Some hi) (slider st u label lo hi v)" for label lo hi v
    unfolding widget_contract_def by blast
  from assms have sb: "options \<noteq> [] \<Longrightarrow> selectbox st u label options \<in> set options"
    for label options
    unfolding widget_contract_def by blast
  have gender: "selectbox st u ''Gender'' [''Male'', ''Female''] \<in> {''Male'', ''Female''}"
    using sb [of "[''Male'', ''Female'']" "''Gender''"] by simp
  have occupation: "selectbox st u ''Occupation'' OCCUPATIONS \<in> set OCCUPATIONS"
    by (rule sb) (simp add: OCCUPATIONS_def)
  have bmi: "selectbox st u ''BMI Category'' BMI_CATEGORIES \<in> set BMI_CATEGORIES"
    by (rule sb) (simp add: BMI_CATEGORIES_def)
  have age: "18 \<le> number_input_int st u ''Age'' 18 (Some 100) 30 \<and>
      number_input_int st u ''Age'' 18 (Some 100) 30 \<le> 100"
    using ni [of 18 "Some 100" 30 "''Age''"] by (simp add: in_bounds_def)
  have sleep: "0 \<le> number_input_float st u ''Sleep Duration (hours)'' 0 24 (15 / 2) \<and>
      number_input_float st u ''Sleep Duration (hours)'' 0 24 (15 / 2) \<le> 24"
    using nf [of 0 24 "15 / 2" "''Sleep Duration (hours)''"] by (simp add: in_bounds_def)
  have quality: "1 \<le> slider st u ''Quality of Sleep'' 1 10 7 \<and>
      slider st u ''Quality of Sleep'' 1 10 7 \<le> 10"
    using sl [of 1 10 7 "''Quality of Sleep''"] by (simp add: in_bounds_def)
  have activity: "0 \<le> number_input_int st u ''Physical Activity (minutes/day)'' 0 None 30"
    using ni [of 0 None 30 "''Physical Activity (minutes/day)''"] by (simp add: in_bounds_def)
  have stress: "1 \<le> slider st u ''Stress Level'' 1 10 5 \<and> slider st u ''Stress Level'' 1 10 5 \<le> 10"
    using sl [of 1 10 5 "''Stress Level''"] by (simp add: in_bounds_def)
  have systolic: "70 \<le> number_input_int st u ''Systolic Blood Pressure'' 70 (Some 200) 120 \<and>
      number_input_int st u ''Systolic Blood Pressure'' 70 (Some 200) 120 \<le> 200"
    using ni [of 70 "Some 200" 120 "''Systolic Blood Pressure''"] by (simp add: in_bounds_def)
  have diastolic: "40 \<le> number_input_int st u ''Diastolic Blood Pressure'' 40 (Some 130) 80 \<and>
      number_input_int st u ''Diastolic Blood Pressure'' 40 (Some 130) 80 \<le> 130"
    using ni [of 40 "Some 130" 80 "''Diastolic Blood Pressure''"] by (simp add: in_bounds_def)
  have heart: "40 \<le> number_input_int st u ''Heart Rate (bpm)'' 40 (Some 200) 70 \<and>
      number_input_int st u ''Heart Rate (bpm)'' 40 (Some 200) 70 \<le> 200"
    using ni [of 40 "Some 200" 70 "''Heart Rate (bpm)''"] by (simp add: in_bounds_def)
  have steps: "0 \<le> number_input_int st u ''Daily Steps'' 0 (Some 50000) 10000 \<and>
      number_input_int st u ''Daily Steps'' 0 (Some 50000) 10000 \<le> 50000"
    using ni [of 0 "Some 50000" 10000 "''Daily Steps''"] by (simp add: in_bounds_def)
  have built: "snd (get_user_input st u) =
        [(''Gender'', [PyStr (selectbox st u ''Gender'' [''Male'', ''Female''])]),
         (''Age'', [PyInt (number_input_int st u ''Age'' 18 (Some 100) 30)]),
         (''Sleep Duration'', [PyFloat (number_input_float st u ''Sleep Duration (hours)'' 0 24 (15 / 2))]),
         (''Occupation'', [PyStr (selectbox st u ''Occupation'' OCCUPATIONS)]),
         (''Quality of Sleep'', [PyInt (slider st u ''Quality of Sleep'' 1 10 7)]),
         (''Physical Activity Level'',
            [PyInt (number_input_int st u ''Physical Activity (minutes/day)'' 0 None 30)]),
         (''Stress Level'', [PyInt (slider st u ''Stress Level'' 1 10 5)]),
         (''BMI Category'', [PyStr (selectbox st u ''BMI Category'' BMI_CATEGORIES)]),
         (''Systolic'', [PyInt (number_input_int st u ''Systolic Blood Pressure'' 70 (Some 200) 120)]),
         (''Diastolic'', [PyInt (number_input_int st u ''Diastolic Blood Pressure'' 40 (Some 130) 80)]),
         (''Heart Rate'', [PyInt (number_input_int st u ''Heart Rate (bpm)'' 40 (Some 200) 70)]),
         (''Daily Steps'', [PyInt (number_input_int st u ''Daily Steps'' 0 (Some 50000) 10000)])]"
    by (simp add: get_user_input_def Let_def)
  from gender occupation bmi age sleep quality activity stress systolic diastolic heart steps
  show ?thesis
    unfolding built by blast
qed

theorem get_user_input_within_ranges_witness:
  "widget_contract entry_form \<and>
   (\<exists>age. map_of (snd (get_user_input entry_form [(''Age'', PyInt 17)])) ''Age'' = Some [PyInt age] \<and>
      18 \<le> age \<and> age \<le> 100) \<and>
   map_of (snd (get_user_input entry_form [(''Age'', PyInt 17)])) ''Age'' = Some [PyInt 30] \<and>
   map_of (snd (get_user_input entry_form [(''Age'', PyInt 45)])) ''Age'' = Some [PyInt 45]"
proof -
  from get_user_input_within_ranges [OF entry_form_contract, of "[(''Age'', PyInt 17)]"]
  obtain gender age sleep_duration occupation quality_of_sleep physical_activity stress_level
    bmi_category systolic diastolic heart_rate daily_steps
    where r: "snd (get_user_input entry_form [(''Age'', PyInt 17)]) =
        [(''Gender'', [PyStr gender]), (''Age'', [PyInt age]),
         (''Sleep Duration'', [PyFloat sleep_duration]), (''Occupation'', [PyStr occupation]),
         (''Quality of Sleep'', [PyInt quality_of_sleep]),
         (''Physical Activity Level'', [PyInt physical_activity]),
         (''Stress Level'', [PyInt stress_level]), (''BMI Category'', [PyStr bmi_category]),
         (''Systolic'', [PyInt systolic]), (''Diastolic'', [PyInt diastolic]),
         (''Heart Rate'', [PyInt heart_rate]), (''Daily Steps'', [PyInt daily_steps])]"
      and a: "18 \<le> age" "age \<le> 100"
    by blast
  have "map_of (snd (get_user_input entry_form [(''Age'', PyInt 17)])) ''Age'' = Some [PyInt age]"
    unfolding r by simp
  with a have e: "\<exists>age. map_of (snd (get_user_input entry_form [(''Age'', PyInt 17)])) ''Age'' =
      Some [PyInt age] \<and> 18 \<le> age \<and> age \<le> 100"
    by blast
  have k: "map_of (snd (get_user_input entry_form [(''Age'', PyInt 17)])) ''Age'' = Some [PyInt 30]"
    by (simp add: get_user_input_def Let_def entry_defs)
  have t: "map_of (snd (get_user_input entry_form [(''Age'', PyInt 45)])) ''Age'' = Some [PyInt 45]"
    by (simp add: get_user_input_def Let_def entry_defs)
  from entry_form_contract e k t show ?thesis by (intro conjI)
qed

lemma run_trace:
  "fst (run st u app) =
     (if fst (get_user_input st u)
      then Title #
        snd (fst (preprocess_input (preprocessor app) (preprocessor_state app)
               (snd (get_user_input st u)))) @
        (case fst (fst (preprocess_input (preprocessor app) (preprocessor_state app)
               (snd (get_user_input st u)))) of
           None \<Rightarrow> []
         | Some v \<Rightarrow> predict_and_display (model app) v)
      else [Title])"
  by (simp add: run_def split: prod.splits)

lemma preprocess_input_events:
  "snd (fst (preprocess_input tr s data)) =
     (case sqrt_and_drop data of
        Inl e \<Rightarrow> [St_error (''Error in preprocessing: '' @ str_of e)]
      | Inr d \<Rightarrow>
          Called_transform d #
          (case fst (tr s d) of
             Inl e \<Rightarrow> [St_error (''Error in preprocessing: '' @ str_of e)]
           | Inr v \<Rightarrow> []))"
  by (auto simp: preprocess_input_def split: sum.splits prod.splits)

text \<open>
  C5, as stated: an input with Age = 17 is rejected with a ValidationError naming "Age".
  With 17 typed into the Age field and the form submitted, the run shows no error at
  all: the record holds the widget's value 30, and the run goes on to the transformer,
  the classifier and the result.
\<close>

theorem age_17_counterexample:
  "fst (run entry_form [(''Age'', PyInt 17), (''Predict Sleep Disorder'', PyInt 1)]
     \<lparr>model = (\<lambda>v. Inr [PyFloat 1]), preprocessor = LabelEncoderTransformer_transform,
      preprocessor_state = LabelEncoderTransformer_fit \<lparr>encoder = None\<rparr>\<rparr>) =
   [Title,
    Called_transform
      [(''Gender'', [PyStr ''Male'']), (''Age'', [PyInt 30]), (''Occupation'', [PyStr ''Others'']),
       (''Quality of Sleep'', [PyInt 7]), (''Physical Activity Level'', [PyInt 30]),
       (''Stress Level'', [PyInt 5]), (''BMI Category'', [PyStr ''Normal Weight'']),
       (''Systolic'', [PyInt 120]), (''Diastolic'', [PyInt 80]), (''Heart Rate'', [PyInt 70]),
       (''Daily Steps'', [PyInt 10000]), (''Sleep Duration Sqrt'', [PyFloat (sqrt (15 / 2))])],
    Called_predict
      [(''Gender'', [PyInt 0]), (''Age'', [PyInt 0]), (''Occupation'', [PyInt 0]),
       (''Quality of Sleep'', [PyInt 0]), (''Physical Activity Level'', [PyInt 0]),
       (''Stress Level'', [PyInt 0]), (''BMI Category'', [PyInt 0]),
       (''Systolic'', [PyInt 0]), (''Diastolic'', [PyInt 0]), (''Heart Rate'', [PyInt 0]),
       (''Daily Steps'', [PyInt 0]), (''Sleep Duration Sqrt'', [PyInt 0])],
    Result_heading, Result_text ''green'' ''No Disorder'', Recommendations_heading,
    Recommendation ''Continue maintaining good sleep habits'',
    Recommendation ''Stay physically active'',
    Recommendation ''Monitor sleep quality regularly'',
    Recommendation ''Practice stress management''] \<and>
   shown_errors (fst (run entry_form [(''Age'', PyInt 17), (''Predict Sleep Disorder'', PyInt 1)]
     \<lparr>model = (\<lambda>v. Inr [PyFloat 1]), preprocessor = LabelEncoderTransformer_transform,
      preprocessor_state = LabelEncoderTransformer_fit \<lparr>encoder = None\<rparr>\<rparr>)) = []"
proof -
  let ?u = "[(''Age'', PyInt 17), (''Predict Sleep Disorder'', PyInt 1)]"
  let ?fit = "LabelEncoderTransformer_fit \<lparr>encoder = None\<rparr>"
  let ?F = "[(''Gender'', [PyStr ''Male'']), (''Age'', [PyInt 30]), (''Occupation'', [PyStr ''Others'']),
       (''Quality of Sleep'', [PyInt 7]), (''Physical Activity Level'', [PyInt 30]),
       (''Stress Level'', [PyInt 5]), (''BMI Category'', [PyStr ''Normal Weight'']),
       (''Systolic'', [PyInt 120]), (''Diastolic'', [PyInt 80]), (''Heart Rate'', [PyInt 70]),
       (''Daily Steps'', [PyInt 10000]), (''Sleep Duration Sqrt'', [PyFloat (sqrt (15 / 2))])]"
  let ?V = "[(''Gender'', [PyInt 0]), (''Age'', [PyInt 0]), (''Occupation'', [PyInt 0]),
       (''Quality of Sleep'', [PyInt 0]), (''Physical Activity Level'', [PyInt 0]),
       (''Stress Level'', [PyInt 0]), (''BMI Category'', [PyInt 0]),
       (''Systolic'', [PyInt 0]), (''Diastolic'', [PyInt 0]), (''Heart Rate'', [PyInt 0]),
       (''Daily Steps'', [PyInt 0]), (''Sleep Duration Sqrt'', [PyInt 0])]"
  have b: "fst (get_user_input entry_form ?u)"
    by (simp add: get_user_input_def Let_def entry_defs)
  have input: "snd (get_user_input entry_form ?u) =
     [(''Gender'', [PyStr ''Male'']), (''Age'', [PyInt 30]), (''Sleep Duration'', [PyFloat (15 / 2)]),
      (''Occupation'', [PyStr ''Others'']),
      (''Quality of Sleep'', [PyInt 7]), (''Physical Activity Level'', [PyInt 30]),
      (''Stress Level'', [PyInt 5]), (''BMI Category'', [PyStr ''Normal Weight'']),
      (''Systolic'', [PyInt 120]), (''Diastolic'', [PyInt 80]), (''Heart Rate'', [PyInt 70]),
      (''Daily Steps'', [PyInt 10000])]"
    by (simp add: get_user_input_def Let_def entry_defs)
  have sd: "sqrt_and_drop (snd (get_user_input entry_form ?u)) = Inr ?F"
    unfolding input
    by (simp add: sqrt_and_drop_def getitem_def np_sqrt_def drop_columns_def)
  have tr: "fst (LabelEncoderTransformer_transform ?fit ?F) = Inr ?V"
    by (simp add: LabelEncoderTransformer_transform_def LabelEncoderTransformer_fit_def
        fit_transform_def encode_def)
  have v: "fst (fst (preprocess_input LabelEncoderTransformer_transform ?fit
      (snd (get_user_input entry_form ?u)))) = Some ?V"
    by (simp add: preprocess_input_result sd tr)
  have evs: "snd (fst (preprocess_input LabelEncoderTransformer_transform ?fit
      (snd (get_user_input entry_form ?u)))) = [Called_transform ?F]"
    by (simp add: preprocess_input_events sd tr)
  have pd: "predict_and_display (\<lambda>v. Inr [PyFloat 1]) ?V =
      [Called_predict ?V, Result_heading, Result_text ''green'' ''No Disorder'',
       Recommendations_heading,
       Recommendation ''Continue maintaining good sleep habits'',
       Recommendation ''Stay physically active'',
       Recommendation ''Monitor sleep quality regularly'',
       Recommendation ''Practice stress management'']"
    by (simp add: predict_and_display_def disorder_of_def DISORDER_MAPPING_def
        display_recommendations_def map_of_recommendations)
  have t: "fst (run entry_form ?u
     \<lparr>model = (\<lambda>v. Inr [PyFloat 1]), preprocessor = LabelEncoderTransformer_transform,
      preprocessor_state = ?fit\<rparr>) =
     Title # [Called_transform ?F] @ predict_and_display (\<lambda>v. Inr [PyFloat 1]) ?V"
    using b by (simp add: run_trace v evs)
  show ?thesis
    unfolding t pd by simp
qed

end
